theory Spec2Isabelle
  imports Complex_Main "HOL-Library.Word" "HOL-Library.Sublist"
begin

section \<open>JavaScript strings and values\<close>

text \<open>
  A JavaScript string is a sequence of UTF-16 code units, and \<^verbatim>\<open>length\<close>,
  \<^verbatim>\<open>includes\<close>, \<^verbatim>\<open>startsWith\<close>, \<^verbatim>\<open>split\<close>,
  \<^verbatim>\<open>substring\<close> and \<^verbatim>\<open>trim\<close> all work on code units.
  A string is therefore a list of 16-bit words; \<open>lit\<close> embeds an ASCII literal
  of the source.
\<close>

type_synonym code_unit = "16 word"
type_synonym jsstring = "code_unit list"

definition lit :: "string \<Rightarrow> jsstring" where
  "lit s = map of_char s"

definition comma :: code_unit where
  "comma = of_char CHR '',''"

text \<open>\<^verbatim>\<open>s.startsWith(p)\<close> and \<^verbatim>\<open>s.includes(p)\<close>.\<close>

definition startsWith :: "jsstring \<Rightarrow> jsstring \<Rightarrow> bool" where
  "startsWith s p = (take (length p) s = p)"

fun includesStr :: "jsstring \<Rightarrow> jsstring \<Rightarrow> bool" where
  "includesStr [] p = (p = [])"
| "includesStr (c # cs) p = (if startsWith (c # cs) p then True else includesStr cs p)"

text \<open>\<^verbatim>\<open>s.split(sep)\<close> for a separator of one code unit; the result is never
  empty, so element 0 always exists.\<close>

fun split :: "code_unit \<Rightarrow> jsstring \<Rightarrow> jsstring list" where
  "split sep [] = [[]]"
| "split sep (c # cs) =
     (if c = sep then [] # split sep cs
      else (case split sep cs of
              w # ws \<Rightarrow> (c # w) # ws
            | [] \<Rightarrow> [[c]]))"

text \<open>
  \<^verbatim>\<open>s.trim()\<close> removes, at both ends, the code units of ECMAScript's WhiteSpace and
  LineTerminator productions: U+0009 to U+000D, U+0020, U+00A0, U+1680, U+2000 to
  U+200A, U+2028, U+2029, U+202F, U+205F, U+3000 and U+FEFF.
\<close>

definition isWhiteSpace :: "code_unit \<Rightarrow> bool" where
  "isWhiteSpace c =
     (c \<in> {0x0009, 0x000A, 0x000B, 0x000C, 0x000D, 0x0020, 0x00A0, 0x1680,
            0x2028, 0x2029, 0x202F, 0x205F, 0x3000, 0xFEFF}
      \<or> (0x2000 \<le> c \<and> c \<le> 0x200A))"

definition trim :: "jsstring \<Rightarrow> jsstring" where
  "trim s = rev (dropWhile isWhiteSpace (rev (dropWhile isWhiteSpace s)))"

text \<open>\<^verbatim>\<open>s.substring(n)\<close> for \<open>n\<close> within the string or past its end.\<close>

definition substring :: "nat \<Rightarrow> jsstring \<Rightarrow> jsstring" where
  "substring n s = drop n s"

text \<open>
  The values a request can carry: what \<^verbatim>\<open>JSON.parse\<close> or the URL-encoded body
  parser produce, and \<^verbatim>\<open>undefined\<close> for a property that is absent. A number is
  an IEEE double; the code only tests numbers for truthiness and passes them on, so
  a finite double is represented by its value.
\<close>

datatype jsnumber = NaN | Infinity bool | Finite rat

datatype jsval =
    JUndefined
  | JNull
  | JBool bool
  | JNum jsnumber
  | JStr jsstring
  | JArr "jsval list"
  | JObj "(jsstring \<times> jsval) list"

text \<open>ToBoolean: what \<^verbatim>\<open>!v\<close>, \<^verbatim>\<open>v || w\<close>, \<^verbatim>\<open>v && w\<close> and \<^verbatim>\<open>if (v)\<close> test.\<close>

fun truthy :: "jsval \<Rightarrow> bool" where
  "truthy JUndefined = False"
| "truthy JNull = False"
| "truthy (JBool b) = b"
| "truthy (JNum NaN) = False"
| "truthy (JNum (Infinity s)) = True"
| "truthy (JNum (Finite r)) = (r \<noteq> 0)"
| "truthy (JStr s) = (s \<noteq> [])"
| "truthy (JArr xs) = True"
| "truthy (JObj kvs) = True"

text \<open>\<^verbatim>\<open>a || b\<close> yields \<open>a\<close> itself when it is truthy, else \<open>b\<close>.\<close>

definition jsor :: "jsval \<Rightarrow> jsval \<Rightarrow> jsval" where
  "jsor a b = (if truthy a then a else b)"

text \<open>
  \<^verbatim>\<open>v.k\<close> for a value that is neither \<^verbatim>\<open>undefined\<close> nor \<^verbatim>\<open>null\<close>, and a
  property name \<open>k\<close> that no prototype defines (every name the code reads is such):
  the own property of an object, \<^verbatim>\<open>undefined\<close> otherwise. The list of a
  \<open>JObj\<close> holds the properties of the parsed object.
\<close>

definition getProp :: "jsval \<Rightarrow> jsstring \<Rightarrow> jsval" where
  "getProp v k =
     (case v of
        JObj kvs \<Rightarrow> (case map_of kvs k of Some x \<Rightarrow> x | None \<Rightarrow> JUndefined)
      | _ \<Rightarrow> JUndefined)"

text \<open>
  Header values and socket addresses are strings or \<^verbatim>\<open>undefined\<close>. In a chain
  \<^verbatim>\<open>a || b || ... || 'literal'\<close> over such values, \<open>orElse\<close> is one inner
  \<^verbatim>\<open>||\<close> and \<open>orDefault\<close> the last one, whose right operand is a string.
\<close>

definition truthyStr :: "jsstring option \<Rightarrow> bool" where
  "truthyStr a = (case a of None \<Rightarrow> False | Some s \<Rightarrow> s \<noteq> [])"

definition orElse :: "jsstring option \<Rightarrow> jsstring option \<Rightarrow> jsstring option" where
  "orElse a b = (if truthyStr a then a else b)"

definition orDefault :: "jsstring option \<Rightarrow> jsstring \<Rightarrow> jsstring" where
  "orDefault a d = (case a of None \<Rightarrow> d | Some s \<Rightarrow> if s \<noteq> [] then s else d)"

section \<open>The request\<close>

text \<open>
  The fields of the request that the three revisions read: four headers, the peer
  address as \<^verbatim>\<open>req.connection.remoteAddress\<close>, \<^verbatim>\<open>req.socket.remoteAddress\<close>
  and Express's \<^verbatim>\<open>req.ip\<close>, and the parsed body. The body record holds what the
  destructuring of \<^verbatim>\<open>req.body\<close> yields, \<open>JUndefined\<close> for an absent property.
\<close>

record body =
  message :: jsval
  body_gps_latitude :: jsval
  body_gps_longitude :: jsval
  body_gps_accuracy :: jsval
  body_browser_timezone :: jsval
  body_browser_language :: jsval
  clientDeviceInfo :: jsval

record request =
  x_forwarded_for :: "jsstring option"
  x_real_ip :: "jsstring option"
  x_client_ip :: "jsstring option"
  user_agent :: "jsstring option"
  connection_remoteAddress :: "jsstring option"
  socket_remoteAddress :: "jsstring option"
  req_ip :: "jsstring option"
  req_body :: body

section \<open>Client-IP resolver\<close>

text \<open>\<^verbatim>\<open>getClientIP\<close> of src/server.js, lines 110 to 136.\<close>

definition getClientIP :: "request \<Rightarrow> jsstring" where
  "getClientIP req =
     (let ip = orDefault
                 (orElse (orElse (orElse (orElse (orElse
                    (x_forwarded_for req)
                    (x_real_ip req))
                    (x_client_ip req))
                    (connection_remoteAddress req))
                    (socket_remoteAddress req))
                    (req_ip req))
                 (lit ''127.0.0.1'');
          ip = (if includesStr ip (lit '','') then trim (hd (split comma ip)) else ip);
          ip = (if ip = lit ''::1'' then lit ''127.0.0.1'' else ip);
          ip = (if startsWith ip (lit ''::ffff:'') then substring 7 ip else ip)
      in ip)"


text \<open>\<^verbatim>\<open>getClientIP\<close> of src/unnamed/part_001, lines 69 to 95.\<close>

definition getClientIP_part_001 :: "request \<Rightarrow> jsstring" where
  "getClientIP_part_001 req =
     (let ip = orDefault
                 (orElse (orElse (orElse (orElse (orElse
                    (x_forwarded_for req)
                    (x_real_ip req))
                    (x_client_ip req))
                    (connection_remoteAddress req))
                    (socket_remoteAddress req))
                    (req_ip req))
                 (lit ''127.0.0.1'');
          ip = (if includesStr ip (lit '','') then trim (hd (split comma ip)) else ip);
          ip = (if ip = lit ''::1'' then lit ''127.0.0.1'' else ip);
          ip = (if startsWith ip (lit ''::ffff:'') then substring 7 ip else ip)
      in ip)"

text \<open>\<^verbatim>\<open>getClientIP\<close> of src/unnamed/part_000, lines 48 to 74.\<close>

definition getClientIP_part_000 :: "request \<Rightarrow> jsstring" where
  "getClientIP_part_000 req =
     (let ip = orDefault
                 (orElse (orElse (orElse (orElse (orElse
                    (x_forwarded_for req)
                    (x_real_ip req))
                    (x_client_ip req))
                    (connection_remoteAddress req))
                    (socket_remoteAddress req))
                    (req_ip req))
                 (lit ''127.0.0.1'');
          ip = (if includesStr ip (lit '','') then trim (hd (split comma ip)) else ip);
          ip = (if ip = lit ''::1'' then lit ''127.0.0.1'' else ip);
          ip = (if startsWith ip (lit ''::ffff:'') then substring 7 ip else ip)
      in ip)"

section \<open>Geolocation adapter\<close>

text \<open>
  What a JavaScript evaluation can throw here: a \<^verbatim>\<open>TypeError\<close> (a property read
  on \<^verbatim>\<open>null\<close>, a call of something that is no function), a \<^verbatim>\<open>ReferenceError\<close>
  (an identifier with no binding), the \<^verbatim>\<open>Error\<close> the adapter throws itself, and
  the rejection of an awaited promise.
\<close>

datatype exn = TypeError | ReferenceError | Error jsstring | Rejected

text \<open>
  The external lookup \<^verbatim>\<open>fetch(url)\<close> either rejects (a network error) or yields a
  response with its \<^verbatim>\<open>ok\<close> flag and the outcome of \<^verbatim>\<open>response.json()\<close>:
  \<open>None\<close> when the payload is not JSON and the promise rejects.
\<close>

datatype fetch_result = NetworkError | HttpResponse bool "jsval option"

record ipLocation =
  geo_country :: jsval
  geo_city :: jsval
  geo_region :: jsval
  geo_timezone :: jsval

definition localLocation :: ipLocation where
  "localLocation =
     \<lparr>geo_country = JStr (lit ''Local''), geo_city = JStr (lit ''Localhost''),
      geo_region = JStr (lit ''Local''), geo_timezone = JStr (lit ''Local'')\<rparr>"

definition unknownLocation :: ipLocation where
  "unknownLocation =
     \<lparr>geo_country = JStr (lit ''Unknown''), geo_city = JStr (lit ''Unknown''),
      geo_region = JStr (lit ''Unknown''), geo_timezone = JStr (lit ''Unknown'')\<rparr>"

text \<open>
  \<^verbatim>\<open>getIPGeolocation\<close> of src/server.js, lines 139 to 172: first the body of its
  \<^verbatim>\<open>try\<close>, then the function with its \<^verbatim>\<open>catch\<close>. The second component of
  the result lists the URLs requested from the external service.
\<close>

definition getIPGeolocation_try ::
    "(jsstring \<Rightarrow> fetch_result) \<Rightarrow> jsstring \<Rightarrow> (exn + ipLocation) \<times> jsstring list" where
  "getIPGeolocation_try fetch ip =
     (if ip = lit ''127.0.0.1'' \<or> ip = lit ''::1'' \<or> startsWith ip (lit ''192.168.'')
         \<or> startsWith ip (lit ''10.'')
      then (Inr localLocation, [])
      else
        (let url = lit ''https://ipapi.co/'' @ ip @ lit ''/json/'' in
         (case fetch url of
            NetworkError \<Rightarrow> Inl Rejected
          | HttpResponse ok payload \<Rightarrow>
              if \<not> ok then Inl (Error (lit ''IP API failed''))
              else
                (case payload of
                   None \<Rightarrow> Inl Rejected
                 | Some data \<Rightarrow>
                     if data = JNull then Inl TypeError
                     else Inr \<lparr>geo_country = jsor (getProp data (lit ''country_name'')) (JStr (lit ''Unknown'')),
                               geo_city = jsor (getProp data (lit ''city'')) (JStr (lit ''Unknown'')),
                               geo_region = jsor (getProp data (lit ''region'')) (JStr (lit ''Unknown'')),
                               geo_timezone = jsor (getProp data (lit ''timezone'')) (JStr (lit ''Unknown''))\<rparr>),
          [url])))"

definition getIPGeolocation ::
    "(jsstring \<Rightarrow> fetch_result) \<Rightarrow> jsstring \<Rightarrow> ipLocation \<times> jsstring list" where
  "getIPGeolocation fetch ip =
     (case getIPGeolocation_try fetch ip of
        (Inl error, urls) \<Rightarrow> (unknownLocation, urls)
      | (Inr result, urls) \<Rightarrow> (result, urls))"

text \<open>\<^verbatim>\<open>getIPGeolocation\<close> of src/unnamed/part_001, lines 98 to 131.\<close>

definition getIPGeolocation_try_part_001 ::
    "(jsstring \<Rightarrow> fetch_result) \<Rightarrow> jsstring \<Rightarrow> (exn + ipLocation) \<times> jsstring list" where
  "getIPGeolocation_try_part_001 fetch ip =
     (if ip = lit ''127.0.0.1'' \<or> ip = lit ''::1'' \<or> startsWith ip (lit ''192.168.'')
         \<or> startsWith ip (lit ''10.'')
      then (Inr localLocation, [])
      else
        (let url = lit ''https://ipapi.co/'' @ ip @ lit ''/json/'' in
         (case fetch url of
            NetworkError \<Rightarrow> Inl Rejected
          | HttpResponse ok payload \<Rightarrow>
              if \<not> ok then Inl (Error (lit ''IP API failed''))
              else
                (case payload of
                   None \<Rightarrow> Inl Rejected
                 | Some data \<Rightarrow>
                     if data = JNull then Inl TypeError
                     else Inr \<lparr>geo_country = jsor (getProp data (lit ''country_name'')) (JStr (lit ''Unknown'')),
                               geo_city = jsor (getProp data (lit ''city'')) (JStr (lit ''Unknown'')),
                               geo_region = jsor (getProp data (lit ''region'')) (JStr (lit ''Unknown'')),
                               geo_timezone = jsor (getProp data (lit ''timezone'')) (JStr (lit ''Unknown''))\<rparr>),
          [url])))"

definition getIPGeolocation_part_001 ::
    "(jsstring \<Rightarrow> fetch_result) \<Rightarrow> jsstring \<Rightarrow> ipLocation \<times> jsstring list" where
  "getIPGeolocation_part_001 fetch ip =
     (case getIPGeolocation_try_part_001 fetch ip of
        (Inl error, urls) \<Rightarrow> (unknownLocation, urls)
      | (Inr result, urls) \<Rightarrow> (result, urls))"

section \<open>Location reconciler\<close>

text \<open>
  The object \<^verbatim>\<open>locationData\<close> the handlers build; its last three properties are
  assigned after the reconciliation and are \<open>JUndefined\<close> before.
\<close>

record locationData =
  ip_country :: jsval
  ip_city :: jsval
  ip_region :: jsval
  ip_timezone :: jsval
  gps_latitude :: jsval
  gps_longitude :: jsval
  gps_accuracy :: jsval
  browser_timezone :: jsval
  browser_language :: jsval
  final_country :: jsval
  final_city :: jsval
  location_source :: jsval

record bestLocation =
  source :: jsstring
  country :: jsval
  city :: jsval

text \<open>\<^verbatim>\<open>determineBestLocation\<close> of src/unnamed/part_001, lines 134 to 159.\<close>

definition determineBestLocation :: "locationData \<Rightarrow> bestLocation" where
  "determineBestLocation locationData =
     (if truthy (gps_latitude locationData) \<and> truthy (gps_longitude locationData)
      then \<lparr>source = lit ''gps'', country = ip_country locationData,
            city = JStr (lit ''GPS Location'')\<rparr>
      else if truthy (browser_timezone locationData)
              \<and> browser_timezone locationData \<noteq> JStr (lit ''Unknown'')
      then \<lparr>source = lit ''browser'', country = ip_country locationData,
            city = ip_city locationData\<rparr>
      else \<lparr>source = lit ''ip'', country = ip_country locationData,
            city = ip_city locationData\<rparr>)"

text \<open>
  src/server.js calls \<^verbatim>\<open>determineBestLocation(locationData)\<close> at line 345, but the
  file declares only \<^verbatim>\<open>getClientIP\<close>, \<^verbatim>\<open>getIPGeolocation\<close> and
  \<^verbatim>\<open>parseDeviceInfo\<close> and loads no module of the repository: in its scope the
  identifier has no binding. A binding is \<open>Some f\<close>, a missing one \<open>None\<close>, and
  evaluating the call of an unbound identifier throws a \<^verbatim>\<open>ReferenceError\<close>.
\<close>

definition determineBestLocation_server :: "(locationData \<Rightarrow> bestLocation) option" where
  "determineBestLocation_server = None"

definition determineBestLocation_part_001 :: "(locationData \<Rightarrow> bestLocation) option" where
  "determineBestLocation_part_001 = Some determineBestLocation"

definition callBinding :: "('a \<Rightarrow> 'b) option \<Rightarrow> 'a \<Rightarrow> exn + 'b" where
  "callBinding binding x = (case binding of None \<Rightarrow> Inl ReferenceError | Some f \<Rightarrow> Inr (f x))"


section \<open>Device and user-agent classifier\<close>

text \<open>
  \<^verbatim>\<open>s.match(/<p>([<class>]+)/)\<close> for a literal prefix \<open>p\<close> and a character
  class: the match is the leftmost place where \<open>p\<close> is followed by a code unit of
  the class, and group 1 is the longest run of class members there; \<open>None\<close> is the
  \<^verbatim>\<open>null\<close> of a failed match.
\<close>

fun regexCapture :: "jsstring \<Rightarrow> (code_unit \<Rightarrow> bool) \<Rightarrow> jsstring \<Rightarrow> jsstring option" where
  "regexCapture p cls [] = None"
| "regexCapture p cls (c # cs) =
     (let run = takeWhile cls (drop (length p) (c # cs)) in
      if startsWith (c # cs) p \<and> run \<noteq> [] then Some run else regexCapture p cls cs)"

text \<open>The classes \<^verbatim>\<open>[0-9\.]\<close> and \<^verbatim>\<open>[0-9_]\<close>, and \<^verbatim>\<open>replace(/_/g, '.')\<close>.\<close>

definition digitOrDot :: "code_unit \<Rightarrow> bool" where
  "digitOrDot c = ((0x30 \<le> c \<and> c \<le> 0x39) \<or> c = of_char CHR ''.'')"

definition digitOrUnderscore :: "code_unit \<Rightarrow> bool" where
  "digitOrUnderscore c = ((0x30 \<le> c \<and> c \<le> 0x39) \<or> c = of_char CHR ''_'')"

definition underscoresToDots :: "jsstring \<Rightarrow> jsstring" where
  "underscoresToDots s = map (\<lambda>c. if c = of_char CHR ''_'' then of_char CHR ''.'' else c) s"

record deviceInfo =
  userAgent :: jsstring
  platform :: jsval
  isMobile :: jsval
  isTablet :: jsval
  isDesktop :: bool
  deviceType :: jsstring
  deviceBrand :: jsstring
  deviceModel :: jsstring
  operatingSystem :: jsstring
  osVersion :: jsstring
  browser :: jsstring
  browserVersion :: jsstring
  screenWidth :: jsval
  screenHeight :: jsval
  colorDepth :: jsval
  pixelRatio :: jsval
  connectionType :: jsval
  isOnline :: jsval
  touchSupport :: jsval
  cookiesEnabled :: jsval
  javaEnabled :: jsval
  batteryLevel :: jsval
  batteryCharging :: jsval
  hasGyroscope :: jsval
  hasAccelerometer :: jsval
  hasCompass :: jsval

text \<open>
  \<^verbatim>\<open>parseDeviceInfo\<close> of src/server.js, lines 175 to 286, in the order of the
  source: the object literal (lines 177 to 208), the device type (211 to 215), the
  operating system (218 to 237), the browser (240 to 256), brand and model (259 to
  283). Each step takes the lower-cased user agent \<open>ua\<close> and the object built so
  far, and returns the object with the properties it assigns.
\<close>

definition initialDeviceInfo :: "jsstring \<Rightarrow> jsval \<Rightarrow> deviceInfo" where
  "initialDeviceInfo userAgent' deviceData =
     \<lparr>userAgent = userAgent',
      platform = jsor (getProp deviceData (lit ''platform'')) (JStr (lit ''Unknown'')),
      isMobile = jsor (getProp deviceData (lit ''isMobile'')) (JBool False),
      isTablet = jsor (getProp deviceData (lit ''isTablet'')) (JBool False),
      isDesktop = (\<not> truthy (getProp deviceData (lit ''isMobile''))
                   \<and> \<not> truthy (getProp deviceData (lit ''isTablet''))),
      deviceType = lit ''desktop'',
      deviceBrand = lit ''Unknown'',
      deviceModel = lit ''Unknown'',
      operatingSystem = lit ''Unknown'',
      osVersion = lit ''Unknown'',
      browser = lit ''Unknown'',
      browserVersion = lit ''Unknown'',
      screenWidth = jsor (getProp deviceData (lit ''screenWidth'')) JNull,
      screenHeight = jsor (getProp deviceData (lit ''screenHeight'')) JNull,
      colorDepth = jsor (getProp deviceData (lit ''colorDepth'')) JNull,
      pixelRatio = jsor (getProp deviceData (lit ''pixelRatio'')) JNull,
      connectionType = jsor (getProp deviceData (lit ''connectionType'')) (JStr (lit ''Unknown'')),
      isOnline = (if getProp deviceData (lit ''isOnline'') \<noteq> JUndefined
                  then getProp deviceData (lit ''isOnline'') else JBool True),
      touchSupport = jsor (getProp deviceData (lit ''touchSupport'')) (JBool False),
      cookiesEnabled = (if getProp deviceData (lit ''cookiesEnabled'') \<noteq> JUndefined
                        then getProp deviceData (lit ''cookiesEnabled'') else JBool True),
      javaEnabled = jsor (getProp deviceData (lit ''javaEnabled'')) (JBool False),
      batteryLevel = jsor (getProp deviceData (lit ''batteryLevel'')) JNull,
      batteryCharging = jsor (getProp deviceData (lit ''batteryCharging'')) JNull,
      hasGyroscope = jsor (getProp deviceData (lit ''hasGyroscope'')) (JBool False),
      hasAccelerometer = jsor (getProp deviceData (lit ''hasAccelerometer'')) (JBool False),
      hasCompass = jsor (getProp deviceData (lit ''hasCompass'')) (JBool False)\<rparr>"

definition parseDeviceType :: "jsval \<Rightarrow> deviceInfo \<Rightarrow> deviceInfo" where
  "parseDeviceType deviceData d =
     (if truthy (getProp deviceData (lit ''isMobile'')) then d\<lparr>deviceType := lit ''mobile''\<rparr>
      else if truthy (getProp deviceData (lit ''isTablet'')) then d\<lparr>deviceType := lit ''tablet''\<rparr>
      else d)"

definition parseOperatingSystem :: "jsstring \<Rightarrow> deviceInfo \<Rightarrow> deviceInfo" where
  "parseOperatingSystem ua d =
     (if includesStr ua (lit ''android'') then
        (let d = d\<lparr>operatingSystem := lit ''Android''\<rparr> in
         case regexCapture (lit ''android '') digitOrDot ua of
           Some v \<Rightarrow> d\<lparr>osVersion := v\<rparr> | None \<Rightarrow> d)
      else if includesStr ua (lit ''iphone'') \<or> includesStr ua (lit ''ipad'') then
        (let d = d\<lparr>operatingSystem :=
                     (if includesStr ua (lit ''ipad'') then lit ''iPadOS'' else lit ''iOS'')\<rparr> in
         case regexCapture (lit ''os '') digitOrUnderscore ua of
           Some v \<Rightarrow> d\<lparr>osVersion := underscoresToDots v\<rparr> | None \<Rightarrow> d)
      else if includesStr ua (lit ''windows'') then
        (let d = d\<lparr>operatingSystem := lit ''Windows''\<rparr> in
         if includesStr ua (lit ''windows nt 10.0'') then d\<lparr>osVersion := lit ''10/11''\<rparr>
         else if includesStr ua (lit ''windows nt 6.3'') then d\<lparr>osVersion := lit ''8.1''\<rparr>
         else if includesStr ua (lit ''windows nt 6.1'') then d\<lparr>osVersion := lit ''7''\<rparr>
         else d)
      else if includesStr ua (lit ''mac os'') then
        (let d = d\<lparr>operatingSystem := lit ''macOS''\<rparr> in
         case regexCapture (lit ''mac os x '') digitOrUnderscore ua of
           Some v \<Rightarrow> d\<lparr>osVersion := underscoresToDots v\<rparr> | None \<Rightarrow> d)
      else if includesStr ua (lit ''linux'') then d\<lparr>operatingSystem := lit ''Linux''\<rparr>
      else d)"

definition parseBrowser :: "jsstring \<Rightarrow> deviceInfo \<Rightarrow> deviceInfo" where
  "parseBrowser ua d =
     (if includesStr ua (lit ''chrome'') \<and> \<not> includesStr ua (lit ''edg'') then
        (let d = d\<lparr>browser := lit ''Chrome''\<rparr> in
         case regexCapture (lit ''chrome/'') digitOrDot ua of
           Some v \<Rightarrow> d\<lparr>browserVersion := v\<rparr> | None \<Rightarrow> d)
      else if includesStr ua (lit ''safari'') \<and> \<not> includesStr ua (lit ''chrome'') then
        (let d = d\<lparr>browser := lit ''Safari''\<rparr> in
         case regexCapture (lit ''version/'') digitOrDot ua of
           Some v \<Rightarrow> d\<lparr>browserVersion := v\<rparr> | None \<Rightarrow> d)
      else if includesStr ua (lit ''firefox'') then
        (let d = d\<lparr>browser := lit ''Firefox''\<rparr> in
         case regexCapture (lit ''firefox/'') digitOrDot ua of
           Some v \<Rightarrow> d\<lparr>browserVersion := v\<rparr> | None \<Rightarrow> d)
      else if includesStr ua (lit ''edg'') then
        (let d = d\<lparr>browser := lit ''Microsoft Edge''\<rparr> in
         case regexCapture (lit ''edg/'') digitOrDot ua of
           Some v \<Rightarrow> d\<lparr>browserVersion := v\<rparr> | None \<Rightarrow> d)
      else d)"

definition parseBrandModel :: "jsstring \<Rightarrow> deviceInfo \<Rightarrow> deviceInfo" where
  "parseBrandModel ua d =
     (if includesStr ua (lit ''iphone'') then
        (let d = d\<lparr>deviceBrand := lit ''Apple''\<rparr> in
         if includesStr ua (lit ''iphone os'') then
           (if includesStr ua (lit ''iphone14'') then d\<lparr>deviceModel := lit ''iPhone 14''\<rparr>
            else if includesStr ua (lit ''iphone13'') then d\<lparr>deviceModel := lit ''iPhone 13''\<rparr>
            else if includesStr ua (lit ''iphone12'') then d\<lparr>deviceModel := lit ''iPhone 12''\<rparr>
            else d\<lparr>deviceModel := lit ''iPhone''\<rparr>)
         else d)
      else if includesStr ua (lit ''ipad'') then
        d\<lparr>deviceBrand := lit ''Apple'', deviceModel := lit ''iPad''\<rparr>
      else if includesStr ua (lit ''samsung'') then
        (let d = d\<lparr>deviceBrand := lit ''Samsung''\<rparr> in
         if includesStr ua (lit ''galaxy'') then d\<lparr>deviceModel := lit ''Galaxy''\<rparr> else d)
      else if includesStr ua (lit ''pixel'') then
        d\<lparr>deviceBrand := lit ''Google'', deviceModel := lit ''Pixel''\<rparr>
      else if includesStr ua (lit ''oneplus'') then d\<lparr>deviceBrand := lit ''OnePlus''\<rparr>
      else if includesStr ua (lit ''xiaomi'') then d\<lparr>deviceBrand := lit ''Xiaomi''\<rparr>
      else if includesStr ua (lit ''huawei'') then d\<lparr>deviceBrand := lit ''Huawei''\<rparr>
      else d)"

text \<open>
  \<^verbatim>\<open>String.prototype.toLowerCase\<close> follows the Unicode case tables, which are
  not reproduced here: \<open>parseDeviceInfo\<close> takes the conversion as its first
  argument. \<open>toLowerCaseASCII\<close> is the conversion on strings of ASCII code units,
  where it maps \<^verbatim>\<open>A\<close> to \<^verbatim>\<open>Z\<close> onto \<^verbatim>\<open>a\<close> to \<^verbatim>\<open>z\<close> and keeps the rest.
\<close>

definition parseDeviceInfo :: "(jsstring \<Rightarrow> jsstring) \<Rightarrow> jsstring \<Rightarrow> jsval \<Rightarrow> deviceInfo" where
  "parseDeviceInfo toLowerCase userAgent' deviceData =
     (let ua = toLowerCase userAgent';
          deviceInfo = initialDeviceInfo userAgent' deviceData;
          deviceInfo = parseDeviceType deviceData deviceInfo;
          deviceInfo = parseOperatingSystem ua deviceInfo;
          deviceInfo = parseBrowser ua deviceInfo;
          deviceInfo = parseBrandModel ua deviceInfo
      in deviceInfo)"

definition toLowerCaseASCII :: "jsstring \<Rightarrow> jsstring" where
  "toLowerCaseASCII s = map (\<lambda>c. if 0x41 \<le> c \<and> c \<le> 0x5A then c + 0x20 else c) s"


section \<open>Submission handler\<close>

text \<open>
  The document handed to \<^verbatim>\<open>new Message(...)\<close>; the bare revision sets neither
  \<open>location\<close> nor \<open>deviceInfo\<close>, the location revision no \<open>deviceInfo\<close>.
\<close>

record messageDoc =
  content :: jsstring
  ipAddress :: jsstring
  location :: "locationData option"
  deviceInfo :: "deviceInfo option"
  timestamp :: nat

text \<open>
  The response: the HTTP status and the JSON object sent, either
  \<^verbatim>\<open>{success: false, error}\<close> or \<^verbatim>\<open>{success: true, message, location, device}\<close>
  with the last two present only in the revisions that send them.
\<close>

record deviceSummary =
  summary_type :: jsstring
  summary_brand :: jsstring
  summary_model :: jsstring
  summary_os :: jsstring
  summary_browser :: jsstring

datatype json = Failure jsstring | Success jsstring "bestLocation option" "deviceSummary option"

record response =
  status :: nat
  json :: json

fun success :: "json \<Rightarrow> bool" where
  "success (Failure e) = False"
| "success (Success m l d) = True"

text \<open>
  What surrounds a handler: the conversion \<^verbatim>\<open>toLowerCase\<close>, the geolocation
  service behind \<^verbatim>\<open>fetch\<close>, the store behind \<^verbatim>\<open>newMessage.save()\<close> (\<open>save\<close>
  tells whether the store accepts a document; when it does not, the awaited promise
  rejects) and the clock read by \<^verbatim>\<open>new Date()\<close>. The collection is the list of
  the documents inserted so far. Logging is left out.
\<close>

record env =
  toLowerCase :: "jsstring \<Rightarrow> jsstring"
  fetch :: "jsstring \<Rightarrow> fetch_result"
  save :: "messageDoc \<Rightarrow> bool"
  now :: nat

definition badRequest :: "jsstring \<Rightarrow> response" where
  "badRequest e = \<lparr>status = 400, json = Failure e\<rparr>"

definition serverError :: response where
  "serverError = \<lparr>status = 500, json = Failure (lit ''Failed to send message. Please try again.'')\<rparr>"

text \<open>
  The handler of \<^verbatim>\<open>POST /send-message\<close> in src/server.js, lines 293 to 390: the
  body of its \<^verbatim>\<open>try\<close> (lines 295 to 381), then the handler with its
  \<^verbatim>\<open>catch\<close>. A message that is truthy and no string has no method
  \<^verbatim>\<open>trim\<close>, and calling it throws a \<^verbatim>\<open>TypeError\<close>.
\<close>

definition sendMessage_try ::
    "env \<Rightarrow> request \<Rightarrow> messageDoc list \<Rightarrow> exn + response \<times> messageDoc list" where
  "sendMessage_try env req db =
     (let b = req_body req in
      if \<not> truthy (message b) then Inr (badRequest (lit ''Message cannot be empty''), db)
      else
        (case message b of
           JStr m \<Rightarrow>
             if length (trim m) = 0 then Inr (badRequest (lit ''Message cannot be empty''), db)
             else if length m > 1000
             then Inr (badRequest (lit ''Message too long (max 1000 characters)''), db)
             else
               (let clientIP = getClientIP req;
                    userAgent' = orDefault (user_agent req) (lit ''Unknown'');
                    ipLocation = fst (getIPGeolocation (fetch env) clientIP);
                    locationData =
                      \<lparr>ip_country = geo_country ipLocation,
                       ip_city = geo_city ipLocation,
                       ip_region = geo_region ipLocation,
                       ip_timezone = geo_timezone ipLocation,
                       gps_latitude = jsor (body_gps_latitude b) JNull,
                       gps_longitude = jsor (body_gps_longitude b) JNull,
                       gps_accuracy = jsor (body_gps_accuracy b) JNull,
                       browser_timezone = jsor (body_browser_timezone b) (JStr (lit ''Unknown'')),
                       browser_language = jsor (body_browser_language b) (JStr (lit ''Unknown'')),
                       final_country = JUndefined,
                       final_city = JUndefined,
                       location_source = JUndefined\<rparr>
                in
                case callBinding determineBestLocation_server locationData of
                  Inl e \<Rightarrow> Inl e
                | Inr bestLocation \<Rightarrow>
                    (let locationData = locationData
                           \<lparr>final_country := country bestLocation,
                            final_city := city bestLocation,
                            location_source := JStr (source bestLocation)\<rparr>;
                         deviceInfo' = parseDeviceInfo (toLowerCase env) userAgent'
                                         (jsor (clientDeviceInfo b) (JObj []));
                         newMessage =
                           \<lparr>content = trim m, ipAddress = clientIP,
                            location = Some locationData, deviceInfo = Some deviceInfo',
                            timestamp = now env\<rparr>
                     in
                     if save env newMessage
                     then Inr (\<lparr>status = 200,
                                json = Success (lit ''Message sent anonymously!'')
                                         (Some bestLocation)
                                         (Some \<lparr>summary_type = deviceType deviceInfo',
                                                summary_brand = deviceBrand deviceInfo',
                                                summary_model = deviceModel deviceInfo',
                                                summary_os = operatingSystem deviceInfo',
                                                summary_browser = browser deviceInfo'\<rparr>)\<rparr>,
                               db @ [newMessage])
                     else Inl Rejected))
         | _ \<Rightarrow> Inl TypeError))"

definition sendMessage ::
    "env \<Rightarrow> request \<Rightarrow> messageDoc list \<Rightarrow> response \<times> messageDoc list" where
  "sendMessage env req db =
     (case sendMessage_try env req db of
        Inl error \<Rightarrow> (serverError, db)
      | Inr result \<Rightarrow> result)"

text \<open>The handler of src/unnamed/part_001, lines 166 to 249.\<close>

definition sendMessage_try_part_001 ::
    "env \<Rightarrow> request \<Rightarrow> messageDoc list \<Rightarrow> exn + response \<times> messageDoc list" where
  "sendMessage_try_part_001 env req db =
     (let b = req_body req in
      if \<not> truthy (message b) then Inr (badRequest (lit ''Message cannot be empty''), db)
      else
        (case message b of
           JStr m \<Rightarrow>
             if length (trim m) = 0 then Inr (badRequest (lit ''Message cannot be empty''), db)
             else if length m > 1000
             then Inr (badRequest (lit ''Message too long (max 1000 characters)''), db)
             else
               (let clientIP = getClientIP_part_001 req;
                    ipLocation = fst (getIPGeolocation_part_001 (fetch env) clientIP);
                    locationData =
                      \<lparr>ip_country = geo_country ipLocation,
                       ip_city = geo_city ipLocation,
                       ip_region = geo_region ipLocation,
                       ip_timezone = geo_timezone ipLocation,
                       gps_latitude = jsor (body_gps_latitude b) JNull,
                       gps_longitude = jsor (body_gps_longitude b) JNull,
                       gps_accuracy = jsor (body_gps_accuracy b) JNull,
                       browser_timezone = jsor (body_browser_timezone b) (JStr (lit ''Unknown'')),
                       browser_language = jsor (body_browser_language b) (JStr (lit ''Unknown'')),
                       final_country = JUndefined,
                       final_city = JUndefined,
                       location_source = JUndefined\<rparr>
                in
                case callBinding determineBestLocation_part_001 locationData of
                  Inl e \<Rightarrow> Inl e
                | Inr bestLocation \<Rightarrow>
                    (let locationData = locationData
                           \<lparr>final_country := country bestLocation,
                            final_city := city bestLocation,
                            location_source := JStr (source bestLocation)\<rparr>;
                         newMessage =
                           \<lparr>content = trim m, ipAddress = clientIP,
                            location = Some locationData, deviceInfo = None,
                            timestamp = now env\<rparr>
                     in
                     if save env newMessage
                     then Inr (\<lparr>status = 200,
                                json = Success (lit ''Message sent anonymously!'')
                                         (Some bestLocation) None\<rparr>,
                               db @ [newMessage])
                     else Inl Rejected))
         | _ \<Rightarrow> Inl TypeError))"

definition sendMessage_part_001 ::
    "env \<Rightarrow> request \<Rightarrow> messageDoc list \<Rightarrow> response \<times> messageDoc list" where
  "sendMessage_part_001 env req db =
     (case sendMessage_try_part_001 env req db of
        Inl error \<Rightarrow> (serverError, db)
      | Inr result \<Rightarrow> result)"

text \<open>The handler of src/unnamed/part_000, lines 81 to 124.\<close>

definition sendMessage_try_part_000 ::
    "env \<Rightarrow> request \<Rightarrow> messageDoc list \<Rightarrow> exn + response \<times> messageDoc list" where
  "sendMessage_try_part_000 env req db =
     (let b = req_body req in
      if \<not> truthy (message b) then Inr (badRequest (lit ''Message cannot be empty''), db)
      else
        (case message b of
           JStr m \<Rightarrow>
             if length (trim m) = 0 then Inr (badRequest (lit ''Message cannot be empty''), db)
             else if length m > 1000
             then Inr (badRequest (lit ''Message too long (max 1000 characters)''), db)
             else
               (let clientIP = getClientIP_part_000 req;
                    newMessage =
                      \<lparr>content = trim m, ipAddress = clientIP,
                       location = None, deviceInfo = None,
                       timestamp = now env\<rparr>
                in
                if save env newMessage
                then Inr (\<lparr>status = 200,
                           json = Success (lit ''Message sent anonymously!'') None None\<rparr>,
                          db @ [newMessage])
                else Inl Rejected)
         | _ \<Rightarrow> Inl TypeError))"

definition sendMessage_part_000 ::
    "env \<Rightarrow> request \<Rightarrow> messageDoc list \<Rightarrow> response \<times> messageDoc list" where
  "sendMessage_part_000 env req db =
     (case sendMessage_try_part_000 env req db of
        Inl error \<Rightarrow> (serverError, db)
      | Inr result \<Rightarrow> result)"


section \<open>The specification's wording, for comparison with the code\<close>

text \<open>
  The client-IP resolver as the specification describes it: the first header or
  peer address that is present, else the loopback literal; of a comma-separated
  list the first entry, trimmed; the IPv6 loopback rewritten; a leading IPv4-mapped
  prefix stripped. The peer address is read where the code reads it: from the
  connection, from the socket, and from \<^verbatim>\<open>req.ip\<close>.
\<close>

definition chosenAddress_spec :: "request \<Rightarrow> jsstring" where
  "chosenAddress_spec req =
     (case List.find (\<lambda>v. v \<noteq> None \<and> v \<noteq> Some [])
             [x_forwarded_for req, x_real_ip req, x_client_ip req,
              connection_remoteAddress req, socket_remoteAddress req, req_ip req] of
        Some (Some s) \<Rightarrow> s
      | _ \<Rightarrow> lit ''127.0.0.1'')"

definition firstEntry_spec :: "jsstring \<Rightarrow> jsstring" where
  "firstEntry_spec s = (if comma \<in> set s then trim (takeWhile (\<lambda>c. c \<noteq> comma) s) else s)"

definition loopback_spec :: "jsstring \<Rightarrow> jsstring" where
  "loopback_spec s = (if s = lit ''::1'' then lit ''127.0.0.1'' else s)"

definition stripMapped_spec :: "jsstring \<Rightarrow> jsstring" where
  "stripMapped_spec s =
     (if prefix (lit ''::ffff:'') s then drop (length (lit ''::ffff:'')) s else s)"

definition clientIP_spec :: "request \<Rightarrow> jsstring" where
  "clientIP_spec req = stripMapped_spec (loopback_spec (firstEntry_spec (chosenAddress_spec req)))"

text \<open>
  The validation as the specification words it, on any value of the message field:
  the response a submission is rejected with, or \<open>None\<close> when it passes. A message
  that is absent or falsy is empty; a truthy value that is no string has no
  \<^verbatim>\<open>trim\<close> and ends in the handler's \<^verbatim>\<open>catch\<close>.
\<close>

definition validation_spec :: "jsval \<Rightarrow> response option" where
  "validation_spec v =
     (if \<not> truthy v then Some (badRequest (lit ''Message cannot be empty''))
      else
        (case v of
           JStr m \<Rightarrow>
             if trim m = [] then Some (badRequest (lit ''Message cannot be empty''))
             else if 1000 < length m
             then Some (badRequest (lit ''Message too long (max 1000 characters)''))
             else None
         | _ \<Rightarrow> Some serverError))"

section \<open>Concrete inputs\<close>

text \<open>
  A request from the documentation range 203.0.113.0/24 with the body
  \<^verbatim>\<open>{"message": "hi"}\<close>, the same with a message of three spaces, with one of
  1001 letters and with one of a letter and 1000 spaces, five user-agent strings, a geolocation service that answers, one that cannot be
  reached, a store that accepts every document, and the location bundle of the
  specification's GPS example.
\<close>

definition emptyBody :: body where
  "emptyBody =
     \<lparr>message = JUndefined, body_gps_latitude = JUndefined, body_gps_longitude = JUndefined,
      body_gps_accuracy = JUndefined, body_browser_timezone = JUndefined,
      body_browser_language = JUndefined, clientDeviceInfo = JUndefined\<rparr>"

definition emptyRequest :: request where
  "emptyRequest =
     \<lparr>x_forwarded_for = None, x_real_ip = None, x_client_ip = None, user_agent = None,
      connection_remoteAddress = None, socket_remoteAddress = None, req_ip = None,
      req_body = emptyBody\<rparr>"

definition exampleRequest :: request where
  "exampleRequest =
     emptyRequest
       \<lparr>x_forwarded_for := Some (lit ''203.0.113.5''),
        connection_remoteAddress := Some (lit ''::ffff:10.0.0.1''),
        req_body := emptyBody\<lparr>message := JStr (lit ''hi'')\<rparr>\<rparr>"

definition blankRequest :: request where
  "blankRequest = exampleRequest\<lparr>req_body := emptyBody\<lparr>message := JStr (lit ''   '')\<rparr>\<rparr>"

definition longMessage :: jsstring where
  "longMessage = replicate 1001 (of_char CHR ''a'')"

definition longRequest :: request where
  "longRequest = exampleRequest\<lparr>req_body := emptyBody\<lparr>message := JStr longMessage\<rparr>\<rparr>"

definition paddedMessage :: jsstring where
  "paddedMessage = of_char CHR ''a'' # replicate 1000 (of_char CHR '' '')"

definition paddedRequest :: request where
  "paddedRequest = exampleRequest\<lparr>req_body := emptyBody\<lparr>message := JStr paddedMessage\<rparr>\<rparr>"

definition chromeFirefoxAgent :: jsstring where
  "chromeFirefoxAgent = lit ''Mozilla/5.0 Chrome/120.0 Firefox/115.0''"

definition edgeAgent :: jsstring where
  "edgeAgent = lit ''Mozilla/5.0 Chrome/120.0 Safari/537.36 Edg/120.0''"

definition iphoneAgent :: jsstring where
  "iphoneAgent = lit ''Mozilla/5.0 (iPhone; CPU iPhone OS 16_0 like Mac OS X)''"

definition iphoneNoOsAgent :: jsstring where
  "iphoneNoOsAgent = lit ''Mozilla/5.0 (iPhone; U; CPU like Mac OS X)''"

definition ipadAgent :: jsstring where
  "ipadAgent = lit ''Mozilla/5.0 (iPad; CPU OS 16_0 like Mac OS X)''"

definition exampleEnv :: env where
  "exampleEnv =
     \<lparr>toLowerCase = toLowerCaseASCII,
      fetch = (\<lambda>url. HttpResponse True
                 (Some (JObj [(lit ''country_name'', JStr (lit ''Iceland'')),
                              (lit ''city'', JStr (lit ''Vik''))]))),
      save = (\<lambda>doc. True),
      now = 0\<rparr>"

definition unreachableEnv :: env where
  "unreachableEnv = exampleEnv\<lparr>fetch := (\<lambda>url. NetworkError)\<rparr>"

definition exampleLocation :: locationData where
  "exampleLocation =
     \<lparr>ip_country = JStr (lit ''Iceland''), ip_city = JStr (lit ''Vik''),
      ip_region = JStr (lit ''Unknown''), ip_timezone = JStr (lit ''Unknown''),
      gps_latitude = JNum (Finite 37), gps_longitude = JNum (Finite (- 122)),
      gps_accuracy = JNull,
      browser_timezone = JStr (lit ''Unknown''), browser_language = JStr (lit ''Unknown''),
      final_country = JUndefined, final_city = JUndefined, location_source = JUndefined\<rparr>"


section \<open>Client-IP resolver: the code against the specification\<close>

lemma startsWith_prefix: "startsWith s p = prefix p s"
  unfolding startsWith_def by (metis prefix_def append_eq_conv_conj take_is_prefix)

lemma includesStr_single: "includesStr s [c] = (c \<in> set s)"
  by (induction s) (auto simp: startsWith_def)

lemma split_nonempty: "split sep s \<noteq> []"
  by (induction s) (auto split: list.splits)

lemma hd_split: "hd (split sep s) = takeWhile (\<lambda>c. c \<noteq> sep) s"
  by (induction s) (auto split: list.splits simp: split_nonempty)

lemma lit_comma: "lit '','' = [comma]"
  by (simp add: lit_def comma_def)

lemma orElse_assoc: "orElse (orElse a b) c = orElse a (orElse b c)"
  by (simp add: orElse_def)

lemma orDefault_orElse: "orDefault (orElse a b) d = orDefault a (orDefault b d)"
  by (cases a) (auto simp: orElse_def orDefault_def truthyStr_def)

lemma find_present_Cons:
  "(case List.find (\<lambda>v. v \<noteq> None \<and> v \<noteq> Some []) (a # vs) of Some (Some s) \<Rightarrow> s | _ \<Rightarrow> d) =
     orDefault a (case List.find (\<lambda>v. v \<noteq> None \<and> v \<noteq> Some []) vs of Some (Some s) \<Rightarrow> s | _ \<Rightarrow> d)"
  by (cases a) (auto simp: orDefault_def)

lemma find_present_Nil:
  "(case List.find (\<lambda>v. v \<noteq> None \<and> v \<noteq> Some []) [] of Some (Some s) \<Rightarrow> s | _ \<Rightarrow> d) = d"
  by simp

lemma orElse_chain:
  "orDefault (orElse (orElse (orElse (orElse (orElse a b) c) d) e) f) dflt =
     (case List.find (\<lambda>v. v \<noteq> None \<and> v \<noteq> Some []) [a, b, c, d, e, f] of
        Some (Some s) \<Rightarrow> s | _ \<Rightarrow> dflt)"
  by (simp only: orElse_assoc orDefault_orElse find_present_Cons find_present_Nil)

lemma firstEntry_code:
  "(if includesStr s (lit '','') then trim (hd (split comma s)) else s) = firstEntry_spec s"
  by (simp add: firstEntry_spec_def lit_comma includesStr_single hd_split)

lemma stripMapped_code:
  "(if startsWith s (lit ''::ffff:'') then substring 7 s else s) = stripMapped_spec s"
proof -
  have len: "length (lit ''::ffff:'') = 7"
    by (simp add: lit_def)
  show ?thesis
    by (simp add: stripMapped_spec_def startsWith_prefix substring_def len)
qed

text \<open>
  Claim C3. For every request the client-IP resolver returns a string (the function
  is total: none of its steps can throw on header values and addresses that are
  strings or absent). It takes the first that is present of the X-Forwarded-For,
  X-Real-IP and X-Client-IP headers and the peer address, else \<^verbatim>\<open>127.0.0.1\<close>; of
  a value with a comma it keeps the first entry, trimmed; it rewrites \<^verbatim>\<open>::1\<close> to
  \<^verbatim>\<open>127.0.0.1\<close>; and it strips a leading \<^verbatim>\<open>::ffff:\<close> from the result.
\<close>

theorem getClientIP_meets_spec: "getClientIP req = clientIP_spec req"
  unfolding getClientIP_def clientIP_spec_def Let_def orElse_chain firstEntry_code
    stripMapped_code
  by (simp only: chosenAddress_spec_def loopback_spec_def)

theorem getClientIP_meets_spec_witness:
  "getClientIP (emptyRequest\<lparr>x_forwarded_for := Some (lit ''203.0.113.5, 10.0.0.1'')\<rparr>) = lit ''203.0.113.5''
   \<and> getClientIP (emptyRequest\<lparr>connection_remoteAddress := Some (lit ''::1'')\<rparr>) = lit ''127.0.0.1''
   \<and> getClientIP (emptyRequest\<lparr>connection_remoteAddress := Some (lit ''::ffff:203.0.113.7'')\<rparr>) = lit ''203.0.113.7''
   \<and> getClientIP emptyRequest = lit ''127.0.0.1''"
  unfolding getClientIP_meets_spec
  by (simp add: clientIP_spec_def chosenAddress_spec_def firstEntry_spec_def
    loopback_spec_def stripMapped_spec_def emptyRequest_def lit_def comma_def trim_def isWhiteSpace_def)

section \<open>Geolocation adapter: private addresses and failed lookups\<close>

text \<open>
  Claim C6. For the loopback address (\<^verbatim>\<open>127.0.0.1\<close> or \<^verbatim>\<open>::1\<close>) and every
  address that starts with \<^verbatim>\<open>192.168.\<close> or \<^verbatim>\<open>10.\<close>, the adapter returns the
  Local sentinel and requests nothing from the external service.
\<close>

theorem getIPGeolocation_private:
  "ip = lit ''127.0.0.1'' \<or> ip = lit ''::1'' \<or> startsWith ip (lit ''192.168.'')
     \<or> startsWith ip (lit ''10.'') \<Longrightarrow>
   getIPGeolocation fetch' ip =
     (\<lparr>geo_country = JStr (lit ''Local''), geo_city = JStr (lit ''Localhost''),
       geo_region = JStr (lit ''Local''), geo_timezone = JStr (lit ''Local'')\<rparr>, [])"
  unfolding getIPGeolocation_def getIPGeolocation_try_def localLocation_def
  by (simp only: if_True split: prod.splits sum.splits) simp

theorem getIPGeolocation_private_witness:
  "startsWith (lit ''10.1.2.3'') (lit ''10.'')
   \<and> getIPGeolocation (\<lambda>url. NetworkError) (lit ''10.1.2.3'') =
     (\<lparr>geo_country = JStr (lit ''Local''), geo_city = JStr (lit ''Localhost''),
       geo_region = JStr (lit ''Local''), geo_timezone = JStr (lit ''Local'')\<rparr>, [])"
proof -
  have h: "startsWith (lit ''10.1.2.3'') (lit ''10.'')"
    by (simp add: startsWith_def lit_def)
  then have "lit ''10.1.2.3'' = lit ''127.0.0.1'' \<or> lit ''10.1.2.3'' = lit ''::1''
      \<or> startsWith (lit ''10.1.2.3'') (lit ''192.168.'') \<or> startsWith (lit ''10.1.2.3'') (lit ''10.'')"
    by simp
  from getIPGeolocation_private [OF this] h show ?thesis
    by simp
qed

text \<open>
  For any other address, a lookup that fails (the request is rejected, the response
  is not ok, the payload is not JSON or is \<^verbatim>\<open>null\<close>) is answered with the Unknown
  sentinel, after the one request.
\<close>

lemma getIPGeolocation_lookup_fails:
  assumes "\<not> (ip = lit ''127.0.0.1'' \<or> ip = lit ''::1'' \<or> startsWith ip (lit ''192.168.'')
     \<or> startsWith ip (lit ''10.''))"
    and "fetch' (lit ''https://ipapi.co/'' @ ip @ lit ''/json/'') \<in>
           {NetworkError, HttpResponse False payload, HttpResponse True None,
            HttpResponse True (Some JNull)}"
  shows "getIPGeolocation fetch' ip =
     (\<lparr>geo_country = JStr (lit ''Unknown''), geo_city = JStr (lit ''Unknown''),
       geo_region = JStr (lit ''Unknown''), geo_timezone = JStr (lit ''Unknown'')\<rparr>,
      [lit ''https://ipapi.co/'' @ ip @ lit ''/json/''])"
  using assms
  unfolding getIPGeolocation_def getIPGeolocation_try_def unknownLocation_def Let_def
  by (auto simp del: append_assoc)

section \<open>Location reconciler: priority and source tags\<close>

text \<open>
  Claim C4. The reconciler applies this priority: when GPS latitude and longitude
  are both truthy the source is \<^verbatim>\<open>gps\<close>, the country the IP lookup's and the city
  the fixed \<^verbatim>\<open>GPS Location\<close>; otherwise, when the browser timezone is truthy and
  not \<^verbatim>\<open>Unknown\<close>, the source is \<^verbatim>\<open>browser\<close> with the IP lookup's country and
  city; otherwise the source is \<^verbatim>\<open>ip\<close> with the IP lookup's country and city.
\<close>

theorem determineBestLocation_priority:
  "(truthy (gps_latitude ld) \<and> truthy (gps_longitude ld) \<longrightarrow>
      determineBestLocation ld =
        \<lparr>source = lit ''gps'', country = ip_country ld, city = JStr (lit ''GPS Location'')\<rparr>)
   \<and> (\<not> (truthy (gps_latitude ld) \<and> truthy (gps_longitude ld))
        \<and> truthy (browser_timezone ld) \<and> browser_timezone ld \<noteq> JStr (lit ''Unknown'') \<longrightarrow>
      determineBestLocation ld =
        \<lparr>source = lit ''browser'', country = ip_country ld, city = ip_city ld\<rparr>)
   \<and> (\<not> (truthy (gps_latitude ld) \<and> truthy (gps_longitude ld))
        \<and> \<not> (truthy (browser_timezone ld) \<and> browser_timezone ld \<noteq> JStr (lit ''Unknown'')) \<longrightarrow>
      determineBestLocation ld =
        \<lparr>source = lit ''ip'', country = ip_country ld, city = ip_city ld\<rparr>)"
  by (simp add: determineBestLocation_def)

theorem determineBestLocation_priority_witness:
  "determineBestLocation exampleLocation =
     \<lparr>source = lit ''gps'', country = JStr (lit ''Iceland''), city = JStr (lit ''GPS Location'')\<rparr>
   \<and> determineBestLocation
         (exampleLocation\<lparr>gps_latitude := JNull, gps_longitude := JNull,
                          browser_timezone := JStr (lit ''America/Los_Angeles'')\<rparr>) =
     \<lparr>source = lit ''browser'', country = JStr (lit ''Iceland''), city = JStr (lit ''Vik'')\<rparr>
   \<and> determineBestLocation (exampleLocation\<lparr>gps_latitude := JNull, gps_longitude := JNull\<rparr>) =
     \<lparr>source = lit ''ip'', country = JStr (lit ''Iceland''), city = JStr (lit ''Vik'')\<rparr>"
  using determineBestLocation_priority [of exampleLocation]
    determineBestLocation_priority
      [of "exampleLocation\<lparr>gps_latitude := JNull, gps_longitude := JNull,
                           browser_timezone := JStr (lit ''America/Los_Angeles'')\<rparr>"]
    determineBestLocation_priority
      [of "exampleLocation\<lparr>gps_latitude := JNull, gps_longitude := JNull\<rparr>"]
  by (simp add: exampleLocation_def lit_def)

text \<open>
  Claim C10. For every location bundle the reconciler's source tag is one of
  \<^verbatim>\<open>gps\<close>, \<^verbatim>\<open>browser\<close> and \<^verbatim>\<open>ip\<close>, never \<^verbatim>\<open>combined\<close>, and the country
  it returns is the bundle's \<open>ip_country\<close>.
\<close>

theorem determineBestLocation_source_country:
  "source (determineBestLocation ld) \<in> {lit ''gps'', lit ''browser'', lit ''ip''}
   \<and> source (determineBestLocation ld) \<noteq> lit ''combined''
   \<and> country (determineBestLocation ld) = ip_country ld"
  by (simp add: determineBestLocation_def lit_def)

theorem determineBestLocation_source_country_witness:
  "source (determineBestLocation exampleLocation) = lit ''gps''
   \<and> country (determineBestLocation exampleLocation) = JStr (lit ''Iceland'')"
  using determineBestLocation_source_country [of exampleLocation]
  by (simp add: exampleLocation_def determineBestLocation_def)


section \<open>Device and user-agent classifier: browser\<close>

text \<open>
  The classifier is the composition of its five steps, and only the browser step
  assigns \<open>browser\<close>.
\<close>

lemma parseDeviceInfo_steps:
  "parseDeviceInfo lc u dd =
     parseBrandModel (lc u) (parseBrowser (lc u) (parseOperatingSystem (lc u)
       (parseDeviceType dd (initialDeviceInfo u dd))))"
  by (simp add: parseDeviceInfo_def Let_def)

lemma browser_parseBrandModel: "browser (parseBrandModel ua d) = browser d"
  by (simp add: parseBrandModel_def Let_def)

lemma browser_parseOperatingSystem: "browser (parseOperatingSystem ua d) = browser d"
  by (simp add: parseOperatingSystem_def Let_def split: option.splits)

lemma browser_parseDeviceType: "browser (parseDeviceType dd d) = browser d"
  by (simp add: parseDeviceType_def)

lemma browser_initialDeviceInfo: "browser (initialDeviceInfo u dd) = lit ''Unknown''"
  by (simp add: initialDeviceInfo_def)

lemma browser_parseBrowser:
  "browser (parseBrowser ua d) =
     (if includesStr ua (lit ''chrome'') \<and> \<not> includesStr ua (lit ''edg'') then lit ''Chrome''
      else if includesStr ua (lit ''safari'') \<and> \<not> includesStr ua (lit ''chrome'') then lit ''Safari''
      else if includesStr ua (lit ''firefox'') then lit ''Firefox''
      else if includesStr ua (lit ''edg'') then lit ''Microsoft Edge''
      else browser d)"
  by (simp add: parseBrowser_def Let_def split: option.splits)

lemma browser_parseDeviceInfo:
  "browser (parseDeviceInfo lc u dd) =
     browser (parseBrowser (lc u) (initialDeviceInfo u dd))"
  by (simp add: parseDeviceInfo_steps browser_parseBrandModel browser_parseBrowser
      browser_parseOperatingSystem browser_parseDeviceType)

lemma lower_chromeFirefoxAgent:
  "toLowerCaseASCII chromeFirefoxAgent = lit ''mozilla/5.0 chrome/120.0 firefox/115.0''"
  by (simp add: toLowerCaseASCII_def chromeFirefoxAgent_def lit_def)

lemma lower_edgeAgent:
  "toLowerCaseASCII edgeAgent = lit ''mozilla/5.0 chrome/120.0 safari/537.36 edg/120.0''"
  by (simp add: toLowerCaseASCII_def edgeAgent_def lit_def)

lemma includes_chromeFirefox:
  "includesStr (lit ''mozilla/5.0 chrome/120.0 firefox/115.0'') (lit ''chrome'')"
  "\<not> includesStr (lit ''mozilla/5.0 chrome/120.0 firefox/115.0'') (lit ''edg'')"
  "includesStr (lit ''mozilla/5.0 chrome/120.0 firefox/115.0'') (lit ''firefox'')"
  by (simp_all add: lit_def startsWith_def)

lemma includes_edge:
  "includesStr (lit ''mozilla/5.0 chrome/120.0 safari/537.36 edg/120.0'') (lit ''chrome'')"
  "includesStr (lit ''mozilla/5.0 chrome/120.0 safari/537.36 edg/120.0'') (lit ''edg'')"
  "\<not> includesStr (lit ''mozilla/5.0 chrome/120.0 safari/537.36 edg/120.0'') (lit ''firefox'')"
  by (simp_all add: lit_def startsWith_def)

text \<open>
  Claim C7 says that the four browser checks on the lower-cased user agent are
  independent and that the exclusions are the only disambiguation. The code is an
  \<^verbatim>\<open>if\<close>/\<^verbatim>\<open>else if\<close> chain; a user agent with \<^verbatim>\<open>chrome\<close> and
  \<^verbatim>\<open>firefox\<close> and without \<^verbatim>\<open>edg\<close> satisfies the Chrome check and the Firefox
  check, and the order of the chain decides: the browser is Chrome, although the
  user agent contains \<^verbatim>\<open>firefox\<close>.
\<close>

theorem browser_checks_independent_counterexample:
  "includesStr (toLowerCaseASCII chromeFirefoxAgent) (lit ''firefox'')
   \<and> includesStr (toLowerCaseASCII chromeFirefoxAgent) (lit ''chrome'')
   \<and> \<not> includesStr (toLowerCaseASCII chromeFirefoxAgent) (lit ''edg'')
   \<and> browser (parseDeviceInfo toLowerCaseASCII chromeFirefoxAgent (JObj [])) = lit ''Chrome''
   \<and> lit ''Chrome'' \<noteq> lit ''Firefox''"
proof -
  have "lit ''Chrome'' \<noteq> lit ''Firefox''"
    by (simp add: lit_def)
  then show ?thesis
    by (simp add: browser_parseDeviceInfo browser_parseBrowser lower_chromeFirefoxAgent
        includes_chromeFirefox)
qed

text \<open>
  Claim C7, amended. The four checks are a chain in which the first that holds
  wins, in the order Chrome (\<^verbatim>\<open>chrome\<close> without \<^verbatim>\<open>edg\<close>), Safari
  (\<^verbatim>\<open>safari\<close> without \<^verbatim>\<open>chrome\<close>), Firefox (\<^verbatim>\<open>firefox\<close>), Microsoft
  Edge (\<^verbatim>\<open>edg\<close>); when none holds the browser stays \<^verbatim>\<open>Unknown\<close>. So the
  browser is determined by which of the four checks hold, together with that order.
\<close>

theorem parseDeviceInfo_browser_first_match:
  "let ua = lc u;
       b = browser (parseDeviceInfo lc u dd);
       chrome = (includesStr ua (lit ''chrome'') \<and> \<not> includesStr ua (lit ''edg''));
       safari = (includesStr ua (lit ''safari'') \<and> \<not> includesStr ua (lit ''chrome''));
       firefox = includesStr ua (lit ''firefox'');
       edge = includesStr ua (lit ''edg'')
   in (chrome \<longrightarrow> b = lit ''Chrome'')
    \<and> (\<not> chrome \<and> safari \<longrightarrow> b = lit ''Safari'')
    \<and> (\<not> chrome \<and> \<not> safari \<and> firefox \<longrightarrow> b = lit ''Firefox'')
    \<and> (\<not> chrome \<and> \<not> safari \<and> \<not> firefox \<and> edge \<longrightarrow> b = lit ''Microsoft Edge'')
    \<and> (\<not> chrome \<and> \<not> safari \<and> \<not> firefox \<and> \<not> edge \<longrightarrow> b = lit ''Unknown'')"
  unfolding Let_def browser_parseDeviceInfo browser_parseBrowser browser_initialDeviceInfo
  by simp

theorem parseDeviceInfo_browser_first_match_witness:
  "browser (parseDeviceInfo toLowerCaseASCII chromeFirefoxAgent (JObj [])) = lit ''Chrome''
   \<and> browser (parseDeviceInfo toLowerCaseASCII edgeAgent (JObj [])) = lit ''Microsoft Edge''"
  using parseDeviceInfo_browser_first_match [of toLowerCaseASCII chromeFirefoxAgent "JObj []"]
    parseDeviceInfo_browser_first_match [of toLowerCaseASCII edgeAgent "JObj []"]
  by (simp add: Let_def lower_chromeFirefoxAgent lower_edgeAgent includes_chromeFirefox
      includes_edge)

section \<open>Device and user-agent classifier: brand and model\<close>

text \<open>Only the last step assigns \<open>deviceBrand\<close> and \<open>deviceModel\<close>.\<close>

lemma brand_model_parseBrowser:
  "deviceBrand (parseBrowser ua d) = deviceBrand d"
  "deviceModel (parseBrowser ua d) = deviceModel d"
  by (simp_all add: parseBrowser_def Let_def split: option.splits)

lemma brand_model_parseOperatingSystem:
  "deviceBrand (parseOperatingSystem ua d) = deviceBrand d"
  "deviceModel (parseOperatingSystem ua d) = deviceModel d"
  by (simp_all add: parseOperatingSystem_def Let_def split: option.splits)

lemma brand_model_parseDeviceType:
  "deviceBrand (parseDeviceType dd d) = deviceBrand d"
  "deviceModel (parseDeviceType dd d) = deviceModel d"
  by (simp_all add: parseDeviceType_def)

lemma brand_model_initialDeviceInfo:
  "deviceBrand (initialDeviceInfo u dd) = lit ''Unknown''"
  "deviceModel (initialDeviceInfo u dd) = lit ''Unknown''"
  by (simp_all add: initialDeviceInfo_def)

lemma brand_model_iphone:
  assumes "includesStr ua (lit ''iphone'')"
  shows "deviceBrand (parseBrandModel ua d) = lit ''Apple''"
    and "deviceModel (parseBrandModel ua d) =
      (if includesStr ua (lit ''iphone os'') then
         (if includesStr ua (lit ''iphone14'') then lit ''iPhone 14''
          else if includesStr ua (lit ''iphone13'') then lit ''iPhone 13''
          else if includesStr ua (lit ''iphone12'') then lit ''iPhone 12''
          else lit ''iPhone'')
       else deviceModel d)"
  using assms by (simp_all add: parseBrandModel_def Let_def)

lemma brand_model_ipad:
  assumes "includesStr ua (lit ''ipad'')" and "\<not> includesStr ua (lit ''iphone'')"
  shows "deviceBrand (parseBrandModel ua d) = lit ''Apple''"
    and "deviceModel (parseBrandModel ua d) = lit ''iPad''"
  using assms by (simp_all add: parseBrandModel_def Let_def)

lemmas brand_model_frame =
  brand_model_parseBrowser brand_model_parseOperatingSystem brand_model_parseDeviceType
  brand_model_initialDeviceInfo

lemma lower_iphoneAgent:
  "toLowerCaseASCII iphoneAgent = lit ''mozilla/5.0 (iphone; cpu iphone os 16_0 like mac os x)''"
  by (simp add: toLowerCaseASCII_def iphoneAgent_def lit_def)

lemma lower_iphoneNoOsAgent:
  "toLowerCaseASCII iphoneNoOsAgent = lit ''mozilla/5.0 (iphone; u; cpu like mac os x)''"
  by (simp add: toLowerCaseASCII_def iphoneNoOsAgent_def lit_def)

lemma lower_ipadAgent:
  "toLowerCaseASCII ipadAgent = lit ''mozilla/5.0 (ipad; cpu os 16_0 like mac os x)''"
  by (simp add: toLowerCaseASCII_def ipadAgent_def lit_def)

lemma includes_iphoneAgent:
  "includesStr (lit ''mozilla/5.0 (iphone; cpu iphone os 16_0 like mac os x)'') (lit ''iphone'')"
  "includesStr (lit ''mozilla/5.0 (iphone; cpu iphone os 16_0 like mac os x)'') (lit ''iphone os'')"
  "\<not> includesStr (lit ''mozilla/5.0 (iphone; cpu iphone os 16_0 like mac os x)'') (lit ''iphone14'')"
  "\<not> includesStr (lit ''mozilla/5.0 (iphone; cpu iphone os 16_0 like mac os x)'') (lit ''iphone13'')"
  "\<not> includesStr (lit ''mozilla/5.0 (iphone; cpu iphone os 16_0 like mac os x)'') (lit ''iphone12'')"
  by (simp_all add: lit_def startsWith_def)

lemma includes_iphoneNoOsAgent:
  "includesStr (lit ''mozilla/5.0 (iphone; u; cpu like mac os x)'') (lit ''iphone'')"
  "\<not> includesStr (lit ''mozilla/5.0 (iphone; u; cpu like mac os x)'') (lit ''iphone os'')"
  by (simp_all add: lit_def startsWith_def)

lemma includes_ipadAgent:
  "includesStr (lit ''mozilla/5.0 (ipad; cpu os 16_0 like mac os x)'') (lit ''ipad'')"
  "\<not> includesStr (lit ''mozilla/5.0 (ipad; cpu os 16_0 like mac os x)'') (lit ''iphone'')"
  by (simp_all add: lit_def startsWith_def)

text \<open>
  Claim C8 says that every user agent containing \<^verbatim>\<open>iphone\<close> gets a model: one of
  the three generations, else the generic \<^verbatim>\<open>iPhone\<close>. The code assigns the model
  only inside \<^verbatim>\<open>if (ua.includes('iphone os'))\<close>: a user agent with \<^verbatim>\<open>iphone\<close>
  and without \<^verbatim>\<open>iphone os\<close> keeps the model \<^verbatim>\<open>Unknown\<close>.
\<close>

theorem iphone_model_counterexample:
  "includesStr (toLowerCaseASCII iphoneNoOsAgent) (lit ''iphone'')
   \<and> deviceModel (parseDeviceInfo toLowerCaseASCII iphoneNoOsAgent (JObj [])) = lit ''Unknown''
   \<and> lit ''Unknown'' \<noteq> lit ''iPhone''"
proof -
  have "lit ''Unknown'' \<noteq> lit ''iPhone''"
    by (simp add: lit_def)
  then show ?thesis
    by (simp add: parseDeviceInfo_steps lower_iphoneNoOsAgent includes_iphoneNoOsAgent
        brand_model_iphone brand_model_frame)
qed

text \<open>
  Claim C8, amended. For every lower-cased user agent containing \<^verbatim>\<open>iphone\<close> the
  brand is \<^verbatim>\<open>Apple\<close>; the model is assigned when the user agent also contains
  \<^verbatim>\<open>iphone os\<close>, and is then \<^verbatim>\<open>iPhone 14\<close>, \<^verbatim>\<open>iPhone 13\<close> or
  \<^verbatim>\<open>iPhone 12\<close> for the first of \<^verbatim>\<open>iphone14\<close>, \<^verbatim>\<open>iphone13\<close>,
  \<^verbatim>\<open>iphone12\<close> it contains, else \<^verbatim>\<open>iPhone\<close>; without \<^verbatim>\<open>iphone os\<close> the
  model stays \<^verbatim>\<open>Unknown\<close>. For every user agent containing \<^verbatim>\<open>ipad\<close> and not
  \<^verbatim>\<open>iphone\<close> the brand is \<^verbatim>\<open>Apple\<close> and the model \<^verbatim>\<open>iPad\<close>.
\<close>

theorem parseDeviceInfo_apple:
  "let ua = lc u; d = parseDeviceInfo lc u dd in
     (includesStr ua (lit ''iphone'') \<longrightarrow>
        deviceBrand d = lit ''Apple''
        \<and> deviceModel d =
            (if includesStr ua (lit ''iphone os'') then
               (if includesStr ua (lit ''iphone14'') then lit ''iPhone 14''
                else if includesStr ua (lit ''iphone13'') then lit ''iPhone 13''
                else if includesStr ua (lit ''iphone12'') then lit ''iPhone 12''
                else lit ''iPhone'')
             else lit ''Unknown''))
     \<and> (includesStr ua (lit ''ipad'') \<and> \<not> includesStr ua (lit ''iphone'') \<longrightarrow>
        deviceBrand d = lit ''Apple'' \<and> deviceModel d = lit ''iPad'')"
  unfolding Let_def parseDeviceInfo_steps
  by (simp add: brand_model_iphone brand_model_ipad brand_model_frame)

theorem parseDeviceInfo_apple_witness:
  "deviceBrand (parseDeviceInfo toLowerCaseASCII iphoneAgent (JObj [])) = lit ''Apple''
   \<and> deviceModel (parseDeviceInfo toLowerCaseASCII iphoneAgent (JObj [])) = lit ''iPhone''
   \<and> deviceBrand (parseDeviceInfo toLowerCaseASCII iphoneNoOsAgent (JObj [])) = lit ''Apple''
   \<and> deviceModel (parseDeviceInfo toLowerCaseASCII iphoneNoOsAgent (JObj [])) = lit ''Unknown''
   \<and> deviceBrand (parseDeviceInfo toLowerCaseASCII ipadAgent (JObj [])) = lit ''Apple''
   \<and> deviceModel (parseDeviceInfo toLowerCaseASCII ipadAgent (JObj [])) = lit ''iPad''"
  using parseDeviceInfo_apple [of toLowerCaseASCII iphoneAgent "JObj []"]
    parseDeviceInfo_apple [of toLowerCaseASCII iphoneNoOsAgent "JObj []"]
    parseDeviceInfo_apple [of toLowerCaseASCII ipadAgent "JObj []"]
  unfolding Let_def lower_iphoneAgent lower_iphoneNoOsAgent lower_ipadAgent
  by (simp add: includes_iphoneAgent includes_iphoneNoOsAgent includes_ipadAgent)

section \<open>Submission handler: validation\<close>

lemma trim_Nil: "trim [] = []"
  by (simp add: trim_def)

lemma trim_nonempty: "trim m \<noteq> [] \<Longrightarrow> m \<noteq> []"
  using trim_Nil by auto

lemma sendMessage_falsy:
  "\<not> truthy (message (req_body req)) \<Longrightarrow>
   sendMessage env req db = (badRequest (lit ''Message cannot be empty''), db)"
  by (simp add: sendMessage_def sendMessage_try_def Let_def)

lemma sendMessage_blank:
  "message (req_body req) = JStr m \<Longrightarrow> trim m = [] \<Longrightarrow>
   sendMessage env req db = (badRequest (lit ''Message cannot be empty''), db)"
  by (simp add: sendMessage_def sendMessage_try_def Let_def)

lemma sendMessage_too_long:
  "message (req_body req) = JStr m \<Longrightarrow> trim m \<noteq> [] \<Longrightarrow> 1000 < length m \<Longrightarrow>
   sendMessage env req db = (badRequest (lit ''Message too long (max 1000 characters)''), db)"
  by (frule trim_nonempty) (simp add: sendMessage_def sendMessage_try_def Let_def)

lemma sendMessage_try_unbound:
  "message (req_body req) = JStr m \<Longrightarrow> trim m \<noteq> [] \<Longrightarrow> length m \<le> 1000 \<Longrightarrow>
   sendMessage_try env req db = Inl ReferenceError"
  by (frule trim_nonempty)
    (simp add: sendMessage_try_def Let_def callBinding_def determineBestLocation_server_def)

lemma sendMessage_not_a_string:
  "truthy v \<Longrightarrow> \<forall>m. v \<noteq> JStr m \<Longrightarrow> message (req_body req) = v \<Longrightarrow>
   sendMessage env req db = (serverError, db)"
  by (cases v) (simp_all add: sendMessage_def sendMessage_try_def Let_def)

lemma trim_blank: "trim (lit ''   '') = []"
  by (simp add: trim_def lit_def isWhiteSpace_def)

lemma trim_longMessage: "trim longMessage = longMessage"
  by (simp add: longMessage_def trim_def isWhiteSpace_def)

lemma length_longMessage: "length longMessage = 1001"
  by (simp add: longMessage_def)

lemma trim_paddedMessage: "trim paddedMessage = [of_char CHR ''a'']"
proof -
  have ws: "isWhiteSpace (of_char CHR '' '')" "\<not> isWhiteSpace (of_char CHR ''a'')"
    by (simp_all add: isWhiteSpace_def)
  have "dropWhile isWhiteSpace (replicate 1000 (of_char CHR '' '') @ [of_char CHR ''a'']) =
      dropWhile isWhiteSpace [of_char CHR ''a'']"
    by (rule dropWhile_append2) (insert ws, simp)
  with ws show ?thesis
    by (simp add: paddedMessage_def trim_def)
qed

lemma length_paddedMessage: "length paddedMessage = 1001"
  by (simp add: paddedMessage_def)

lemma trim_hi: "trim (lit ''hi'') = lit ''hi''"
  by (simp add: trim_def lit_def isWhiteSpace_def)

lemma example_valid: "trim (lit ''hi'') \<noteq> []" "length (lit ''hi'') \<le> 1000"
  by (simp_all add: trim_hi) (simp_all add: lit_def)

lemma exampleRequest_message: "message (req_body exampleRequest) = JStr (lit ''hi'')"
  by (simp add: exampleRequest_def emptyRequest_def emptyBody_def)

text \<open>
  Claim C2. \<^verbatim>\<open>POST /send-message\<close> of src/server.js answers with status 400 and
  \<^verbatim>\<open>{success: false, error}\<close>, and inserts nothing, exactly when the message is
  missing or empty after trimming (the empty-message error; this check comes
  first) or, the trimmed message not being empty, the untrimmed message is longer
  than 1000 code units (the too-long error). A message whose trimmed form is not
  empty and whose untrimmed length is at most 1000 is not answered with 400.
\<close>

theorem sendMessage_validation:
  "(message (req_body req) = JUndefined \<longrightarrow>
      sendMessage env req db =
        (\<lparr>status = 400, json = Failure (lit ''Message cannot be empty'')\<rparr>, db))
   \<and> (message (req_body req) = JStr m \<and> trim m = [] \<longrightarrow>
      sendMessage env req db =
        (\<lparr>status = 400, json = Failure (lit ''Message cannot be empty'')\<rparr>, db))
   \<and> (message (req_body req) = JStr m \<and> trim m \<noteq> [] \<and> 1000 < length m \<longrightarrow>
      sendMessage env req db =
        (\<lparr>status = 400, json = Failure (lit ''Message too long (max 1000 characters)'')\<rparr>, db))
   \<and> (message (req_body req) = JStr m \<and> trim m \<noteq> [] \<and> length m \<le> 1000 \<longrightarrow>
      status (fst (sendMessage env req db)) \<noteq> 400)"
proof (intro conjI impI)
  assume "message (req_body req) = JUndefined"
  then have "\<not> truthy (message (req_body req))" by simp
  then show "sendMessage env req db =
      (\<lparr>status = 400, json = Failure (lit ''Message cannot be empty'')\<rparr>, db)"
    by (simp add: sendMessage_falsy badRequest_def)
next
  assume "message (req_body req) = JStr m \<and> trim m = []"
  then show "sendMessage env req db =
      (\<lparr>status = 400, json = Failure (lit ''Message cannot be empty'')\<rparr>, db)"
    by (simp add: sendMessage_blank badRequest_def)
next
  assume "message (req_body req) = JStr m \<and> trim m \<noteq> [] \<and> 1000 < length m"
  then show "sendMessage env req db =
      (\<lparr>status = 400, json = Failure (lit ''Message too long (max 1000 characters)'')\<rparr>, db)"
    by (simp add: sendMessage_too_long badRequest_def)
next
  assume "message (req_body req) = JStr m \<and> trim m \<noteq> [] \<and> length m \<le> 1000"
  then have "sendMessage_try env req db = Inl ReferenceError"
    by (simp add: sendMessage_try_unbound)
  then show "status (fst (sendMessage env req db)) \<noteq> 400"
    by (simp add: sendMessage_def serverError_def)
qed

theorem sendMessage_validation_witness:
  "sendMessage exampleEnv blankRequest [] =
     (\<lparr>status = 400, json = Failure (lit ''Message cannot be empty'')\<rparr>, [])
   \<and> sendMessage exampleEnv longRequest [] =
     (\<lparr>status = 400, json = Failure (lit ''Message too long (max 1000 characters)'')\<rparr>, [])
   \<and> length (trim paddedMessage) = 1
   \<and> sendMessage exampleEnv paddedRequest [] =
     (\<lparr>status = 400, json = Failure (lit ''Message too long (max 1000 characters)'')\<rparr>, [])
   \<and> sendMessage exampleEnv emptyRequest [] =
     (\<lparr>status = 400, json = Failure (lit ''Message cannot be empty'')\<rparr>, [])
   \<and> status (fst (sendMessage exampleEnv exampleRequest [])) \<noteq> 400"
proof -
  have p: "message (req_body paddedRequest) = JStr paddedMessage"
    by (simp add: paddedRequest_def)
  have p': "trim paddedMessage \<noteq> []" "1000 < length paddedMessage"
    by (simp_all add: trim_paddedMessage length_paddedMessage)
  from sendMessage_validation [of paddedRequest exampleEnv "[]" paddedMessage] p p'
  have 5: "sendMessage exampleEnv paddedRequest [] =
     (\<lparr>status = 400, json = Failure (lit ''Message too long (max 1000 characters)'')\<rparr>, [])"
    by blast
  have b: "message (req_body blankRequest) = JStr (lit ''   '')"
    by (simp add: blankRequest_def)
  have l: "message (req_body longRequest) = JStr longMessage"
    by (simp add: longRequest_def)
  have l': "trim longMessage \<noteq> []" "1000 < length longMessage"
    by (simp_all add: trim_longMessage length_longMessage) (simp add: longMessage_def)
  have e: "message (req_body emptyRequest) = JUndefined"
    by (simp add: emptyRequest_def emptyBody_def)
  have h: "message (req_body exampleRequest) = JStr (lit ''hi'')"
    by (simp add: exampleRequest_def emptyRequest_def emptyBody_def)
  have h': "trim (lit ''hi'') \<noteq> []" "length (lit ''hi'') \<le> 1000"
    by (simp_all add: trim_def lit_def isWhiteSpace_def)
  from sendMessage_validation [of blankRequest exampleEnv "[]" "lit ''   ''"] b trim_blank
  have 1: "sendMessage exampleEnv blankRequest [] =
     (\<lparr>status = 400, json = Failure (lit ''Message cannot be empty'')\<rparr>, [])"
    by blast
  from sendMessage_validation [of longRequest exampleEnv "[]" longMessage] l l'
  have 2: "sendMessage exampleEnv longRequest [] =
     (\<lparr>status = 400, json = Failure (lit ''Message too long (max 1000 characters)'')\<rparr>, [])"
    by blast
  from sendMessage_validation [of emptyRequest exampleEnv "[]" "[]"] e
  have 3: "sendMessage exampleEnv emptyRequest [] =
     (\<lparr>status = 400, json = Failure (lit ''Message cannot be empty'')\<rparr>, [])"
    by blast
  from sendMessage_validation [of exampleRequest exampleEnv "[]" "lit ''hi''"] h h'
  have 4: "status (fst (sendMessage exampleEnv exampleRequest [])) \<noteq> 400"
    by blast
  from 1 2 3 4 5 show ?thesis
    by (simp add: trim_paddedMessage)
qed

text \<open>
  The three revisions validate alike: whenever the validation rejects, also for a
  message that is no string, each answers with the same response and leaves the
  collection as it was.
\<close>

lemma sendMessage_rejected:
  "validation_spec (message (req_body req)) = Some r \<Longrightarrow> sendMessage env req db = (r, db)"
  by (cases "message (req_body req)")
    (simp_all add: validation_spec_def sendMessage_def sendMessage_try_def Let_def
      split: if_splits)

lemma sendMessage_part_001_rejected:
  "validation_spec (message (req_body req)) = Some r \<Longrightarrow>
   sendMessage_part_001 env req db = (r, db)"
  by (cases "message (req_body req)")
    (simp_all add: validation_spec_def sendMessage_part_001_def sendMessage_try_part_001_def
      Let_def split: if_splits)

lemma sendMessage_part_000_rejected:
  "validation_spec (message (req_body req)) = Some r \<Longrightarrow>
   sendMessage_part_000 env req db = (r, db)"
  by (cases "message (req_body req)")
    (simp_all add: validation_spec_def sendMessage_part_000_def sendMessage_try_part_000_def
      Let_def split: if_splits)

lemma validation_revisions_equal:
  assumes "validation_spec (message (req_body req)) \<noteq> None"
  shows "sendMessage_part_000 env req db = sendMessage env req db"
    and "sendMessage_part_001 env req db = sendMessage env req db"
  using assms
  by (auto simp: sendMessage_rejected sendMessage_part_001_rejected sendMessage_part_000_rejected)

section \<open>Submission handler: a valid message\<close>

text \<open>
  Claim C1 says that in the canonical revision a message \<open>m\<close> with
  \<open>1 \<le> length (trim m) \<le> 1000\<close> and \<open>length m \<le> 1000\<close> is answered with
  \<^verbatim>\<open>success: true\<close> and stored once, with content \<open>trim m\<close>. src/server.js does
  not do so: after the validation it calls \<^verbatim>\<open>determineBestLocation\<close>, which the
  file does not declare, the \<^verbatim>\<open>ReferenceError\<close> is caught, and every such
  submission is answered with status 500 and nothing is inserted.
\<close>

theorem sendMessage_valid_message_fails:
  "message (req_body req) = JStr m \<Longrightarrow> 1 \<le> length (trim m) \<Longrightarrow> length (trim m) \<le> 1000 \<Longrightarrow>
   length m \<le> 1000 \<Longrightarrow>
   sendMessage env req db =
     (\<lparr>status = 500, json = Failure (lit ''Failed to send message. Please try again.'')\<rparr>, db)"
proof -
  assume m: "message (req_body req) = JStr m" and "1 \<le> length (trim m)" and "length m \<le> 1000"
  then have "trim m \<noteq> []" by auto
  with m \<open>length m \<le> 1000\<close> have "sendMessage_try env req db = Inl ReferenceError"
    by (simp add: sendMessage_try_unbound)
  then show ?thesis
    by (simp add: sendMessage_def serverError_def)
qed

theorem sendMessage_valid_message_fails_witness:
  "message (req_body exampleRequest) = JStr (lit ''hi'')
   \<and> length (trim (lit ''hi'')) = 2 \<and> length (lit ''hi'') = 2
   \<and> sendMessage exampleEnv exampleRequest [] =
     (\<lparr>status = 500, json = Failure (lit ''Failed to send message. Please try again.'')\<rparr>, [])"
proof -
  have m: "message (req_body exampleRequest) = JStr (lit ''hi'')"
    by (simp add: exampleRequest_def emptyRequest_def emptyBody_def)
  have t: "length (trim (lit ''hi'')) = 2" and l: "length (lit ''hi'') = 2"
    by (simp_all add: trim_hi) (simp_all add: lit_def)
  from sendMessage_valid_message_fails [OF m, of exampleEnv "[]"] m t l show ?thesis
    by simp
qed

text \<open>
  The two earlier revisions do what the claim says, whenever the store accepts the
  document.
\<close>

lemma sendMessage_part_001_valid:
  assumes "message (req_body req) = JStr m" and "trim m \<noteq> []" and "length m \<le> 1000"
    and "\<And>doc. save env doc"
  shows "status (fst (sendMessage_part_001 env req db)) = 200"
    and "success (json (fst (sendMessage_part_001 env req db)))"
    and "\<exists>doc. snd (sendMessage_part_001 env req db) = db @ [doc] \<and> content doc = trim m"
  using assms trim_nonempty [OF assms(2)]
  by (simp_all add: sendMessage_part_001_def sendMessage_try_part_001_def Let_def
      callBinding_def determineBestLocation_part_001_def)

lemma sendMessage_part_000_valid:
  assumes "message (req_body req) = JStr m" and "trim m \<noteq> []" and "length m \<le> 1000"
    and "\<And>doc. save env doc"
  shows "status (fst (sendMessage_part_000 env req db)) = 200"
    and "success (json (fst (sendMessage_part_000 env req db)))"
    and "\<exists>doc. snd (sendMessage_part_000 env req db) = db @ [doc] \<and> content doc = trim m"
  using assms trim_nonempty [OF assms(2)]
  by (simp_all add: sendMessage_part_000_def sendMessage_try_part_000_def Let_def)

section \<open>The three revisions compared\<close>

lemma getClientIP_revisions_equal:
  "getClientIP_part_000 = getClientIP \<and> getClientIP_part_001 = getClientIP"
  by (intro conjI ext) (simp_all only: getClientIP_part_000_def getClientIP_part_001_def getClientIP_def)

lemma getIPGeolocation_revisions_equal: "getIPGeolocation_part_001 = getIPGeolocation"
  by (intro ext)
    (simp only: getIPGeolocation_part_001_def getIPGeolocation_def
      getIPGeolocation_try_part_001_def getIPGeolocation_try_def)

lemma exampleRequest_clientIP:
  "getClientIP exampleRequest = lit ''203.0.113.5''"
  "getClientIP_part_001 exampleRequest = lit ''203.0.113.5''"
  by (simp_all add: getClientIP_def getClientIP_part_001_def exampleRequest_def emptyRequest_def
      orElse_def orDefault_def truthyStr_def lit_def startsWith_def)

lemma public_address:
  "\<not> (lit ''203.0.113.5'' = lit ''127.0.0.1'' \<or> lit ''203.0.113.5'' = lit ''::1''
      \<or> startsWith (lit ''203.0.113.5'') (lit ''192.168.'')
      \<or> startsWith (lit ''203.0.113.5'') (lit ''10.''))"
  by (simp add: lit_def startsWith_def)

lemma unreachable_lookup:
  "getIPGeolocation (fetch unreachableEnv) (lit ''203.0.113.5'') =
     (unknownLocation, [lit ''https://ipapi.co/'' @ lit ''203.0.113.5'' @ lit ''/json/''])"
  "getIPGeolocation_part_001 (fetch unreachableEnv) (lit ''203.0.113.5'') =
     (unknownLocation, [lit ''https://ipapi.co/'' @ lit ''203.0.113.5'' @ lit ''/json/''])"
  using public_address
  by (simp_all add: getIPGeolocation_def getIPGeolocation_try_def
      getIPGeolocation_part_001_def getIPGeolocation_try_part_001_def
      unreachableEnv_def Let_def del: append_assoc)

lemma example_lookup:
  "getIPGeolocation_part_001 (fetch exampleEnv) (lit ''203.0.113.5'') =
     (\<lparr>geo_country = JStr (lit ''Iceland''), geo_city = JStr (lit ''Vik''),
       geo_region = JStr (lit ''Unknown''), geo_timezone = JStr (lit ''Unknown'')\<rparr>,
      [lit ''https://ipapi.co/'' @ lit ''203.0.113.5'' @ lit ''/json/''])"
  using public_address
  by (simp add: getIPGeolocation_part_001_def getIPGeolocation_try_part_001_def
      exampleEnv_def Let_def getProp_def jsor_def lit_def del: append_assoc)

lemma sendMessage_example:
  "sendMessage env exampleRequest db = (serverError, db)"
  using sendMessage_try_unbound [OF exampleRequest_message example_valid, of env db]
  by (simp add: sendMessage_def)

lemma sendMessage_part_001_unreachable:
  "sendMessage_part_001 unreachableEnv exampleRequest [] =
     (\<lparr>status = 200,
       json = Success (lit ''Message sent anonymously!'')
                (Some \<lparr>source = lit ''ip'', country = JStr (lit ''Unknown''),
                       city = JStr (lit ''Unknown'')\<rparr>) None\<rparr>,
      [\<lparr>content = lit ''hi'', ipAddress = lit ''203.0.113.5'',
        location = Some \<lparr>ip_country = JStr (lit ''Unknown''), ip_city = JStr (lit ''Unknown''),
                          ip_region = JStr (lit ''Unknown''), ip_timezone = JStr (lit ''Unknown''),
                          gps_latitude = JNull, gps_longitude = JNull, gps_accuracy = JNull,
                          browser_timezone = JStr (lit ''Unknown''),
                          browser_language = JStr (lit ''Unknown''),
                          final_country = JStr (lit ''Unknown''),
                          final_city = JStr (lit ''Unknown''),
                          location_source = JStr (lit ''ip'')\<rparr>,
        deviceInfo = None, timestamp = 0\<rparr>])"
proof -
  have hi: "lit ''hi'' \<noteq> []" by (simp add: lit_def)
  have save: "save unreachableEnv = (\<lambda>doc. True)" "now unreachableEnv = 0"
    by (simp_all add: unreachableEnv_def exampleEnv_def)
  have body: "req_body exampleRequest = emptyBody\<lparr>message := JStr (lit ''hi'')\<rparr>"
    by (simp add: exampleRequest_def)
  show ?thesis
    unfolding sendMessage_part_001_def sendMessage_try_part_001_def Let_def
      exampleRequest_clientIP unreachable_lookup body
    using example_valid hi
    by (simp add: trim_hi save emptyBody_def jsor_def unknownLocation_def callBinding_def
        determineBestLocation_part_001_def determineBestLocation_def)
qed

lemma sendMessage_part_001_example:
  "sendMessage_part_001 exampleEnv exampleRequest [] =
     (\<lparr>status = 200,
       json = Success (lit ''Message sent anonymously!'')
                (Some \<lparr>source = lit ''ip'', country = JStr (lit ''Iceland''),
                       city = JStr (lit ''Vik'')\<rparr>) None\<rparr>,
      [\<lparr>content = lit ''hi'', ipAddress = lit ''203.0.113.5'',
        location = Some \<lparr>ip_country = JStr (lit ''Iceland''), ip_city = JStr (lit ''Vik''),
                          ip_region = JStr (lit ''Unknown''), ip_timezone = JStr (lit ''Unknown''),
                          gps_latitude = JNull, gps_longitude = JNull, gps_accuracy = JNull,
                          browser_timezone = JStr (lit ''Unknown''),
                          browser_language = JStr (lit ''Unknown''),
                          final_country = JStr (lit ''Iceland''),
                          final_city = JStr (lit ''Vik''),
                          location_source = JStr (lit ''ip'')\<rparr>,
        deviceInfo = None, timestamp = 0\<rparr>])"
proof -
  have hi: "lit ''hi'' \<noteq> []" by (simp add: lit_def)
  have save: "save exampleEnv = (\<lambda>doc. True)" "now exampleEnv = 0"
    by (simp_all add: exampleEnv_def)
  have body: "req_body exampleRequest = emptyBody\<lparr>message := JStr (lit ''hi'')\<rparr>"
    by (simp add: exampleRequest_def)
  show ?thesis
    unfolding sendMessage_part_001_def sendMessage_try_part_001_def Let_def
      exampleRequest_clientIP example_lookup body
    using example_valid hi
    by (simp add: trim_hi save emptyBody_def jsor_def callBinding_def
        determineBestLocation_part_001_def determineBestLocation_def)
qed

text \<open>
  Claim C5 says that a failed lookup yields the Unknown sentinel and that the
  submission still succeeds and is stored. The adapter does return the sentinel
  (\<open>getIPGeolocation_lookup_fails\<close>), and the location revision then stores the
  message; the canonical revision answers the same request with status 500 and
  stores nothing, because of the call of the undeclared
  \<^verbatim>\<open>determineBestLocation\<close>.
\<close>

theorem failed_lookup_blocks_submission:
  "getIPGeolocation (fetch unreachableEnv) (getClientIP exampleRequest) =
     (\<lparr>geo_country = JStr (lit ''Unknown''), geo_city = JStr (lit ''Unknown''),
       geo_region = JStr (lit ''Unknown''), geo_timezone = JStr (lit ''Unknown'')\<rparr>,
      [lit ''https://ipapi.co/'' @ lit ''203.0.113.5'' @ lit ''/json/''])
   \<and> sendMessage unreachableEnv exampleRequest [] =
     (\<lparr>status = 500, json = Failure (lit ''Failed to send message. Please try again.'')\<rparr>, [])
   \<and> status (fst (sendMessage_part_001 unreachableEnv exampleRequest [])) = 200
   \<and> map content (snd (sendMessage_part_001 unreachableEnv exampleRequest [])) = [lit ''hi'']"
  by (simp add: exampleRequest_clientIP unreachable_lookup sendMessage_example
      sendMessage_part_001_unreachable unknownLocation_def serverError_def del: append_assoc)

text \<open>
  Claim C9 says that the three revisions agree on their shared surface. The client-IP
  resolvers are equal as functions, the adapters of the two location-aware
  revisions are equal, and rejected messages are answered alike
  (\<open>getClientIP_revisions_equal\<close>, \<open>getIPGeolocation_revisions_equal\<close>,
  \<open>validation_revisions_equal\<close>). The reconciliation differs: where the location
  revision calls its reconciler and answers with the location, the canonical
  revision's call throws, and the same request is answered with status 500.
\<close>

theorem revisions_differ_on_reconciliation:
  "callBinding determineBestLocation_part_001 exampleLocation =
     Inr \<lparr>source = lit ''gps'', country = JStr (lit ''Iceland''),
          city = JStr (lit ''GPS Location'')\<rparr>
   \<and> callBinding determineBestLocation_server exampleLocation = Inl ReferenceError
   \<and> json (fst (sendMessage_part_001 exampleEnv exampleRequest [])) =
       Success (lit ''Message sent anonymously!'')
         (Some \<lparr>source = lit ''ip'', country = JStr (lit ''Iceland''),
                city = JStr (lit ''Vik'')\<rparr>) None
   \<and> map content (snd (sendMessage_part_001 exampleEnv exampleRequest [])) = [lit ''hi'']
   \<and> sendMessage exampleEnv exampleRequest [] =
       (\<lparr>status = 500, json = Failure (lit ''Failed to send message. Please try again.'')\<rparr>, [])"
  by (simp add: sendMessage_part_001_example sendMessage_example serverError_def
      callBinding_def determineBestLocation_part_001_def determineBestLocation_server_def
      determineBestLocation_def exampleLocation_def)

end
